theory Spec2Isabelle
  imports
    Complex_Main
    "HOL-Library.Char_ord"
    "HOL-Library.List_Lexorder"
    "HOL-Library.Product_Lexorder"
begin

section \<open>The Superstore dashboard: data model\<close>

text \<open>
  The dashboard (\<^verbatim>\<open>dashboard.py\<close>) is one straight-line script over a pandas data frame:
  schema validation, the date filter, the three sidebar filters, and three group-by-sum views.
  A data frame is modelled as the list of its rows in index order; each row carries the six
  columns the script reads. A missing cell (NaN, NaT) is \<open>None\<close>.

  An \<^verbatim>\<open>Order Date\<close> cell is a pandas timestamp: year, month, day and the nanosecond of
  the day, compared lexicographically. Strings compare as Python compares them, code point by
  code point. A \<^verbatim>\<open>Sales\<close> cell is a finite float64, modelled as the real number it denotes;
  sums of sales are float64 sums, rounded after every addition. Infinities, NaN and values
  beyond the float64 range are outside the model.
\<close>

type_synonym date = "nat \<times> nat \<times> nat"

type_synonym timestamp = "nat \<times> nat \<times> nat \<times> nat"

record row =
  Order_Date :: "timestamp option"
  Region :: "string option"
  State :: "string option"
  City :: "string option"
  Category :: "string option"
  Sales :: real

datatype error = MissingColumns "string list" | InvalidRange

subsection \<open>Schema validation (lines 76--83)\<close>

definition required_cols :: "string list" where
  "required_cols = [''Order Date'', ''Region'', ''State'', ''City'', ''Category'', ''Sales'']"

text \<open>
  \<^verbatim>\<open>missing = required_cols - set(df.columns)\<close>; when it is not empty the script reports
  \<^verbatim>\<open>sorted(missing)\<close> with \<^verbatim>\<open>st.error\<close> and stops.
\<close>

definition missing :: "string list \<Rightarrow> string list" where
  "missing columns = filter (\<lambda>c. c \<notin> set columns) required_cols"

definition validate :: "string list \<Rightarrow> error + unit" where
  "validate columns =
     (if missing columns \<noteq> [] then Inl (MissingColumns (sort (missing columns))) else Inr ())"

subsection \<open>Date filter (lines 89--105)\<close>

text \<open>\<^verbatim>\<open>pd.to_datetime\<close> of the \<^verbatim>\<open>datetime.date\<close> a date input returns: midnight of that day.\<close>

definition to_datetime :: "date \<Rightarrow> timestamp" where
  "to_datetime d = (case d of (y, m, dd) \<Rightarrow> (y, m, dd, 0))"

text \<open>\<^verbatim>\<open>df.dropna(subset=["Order Date"])\<close>\<close>

definition dropna_Order_Date :: "row list \<Rightarrow> row list" where
  "dropna_Order_Date df = filter (\<lambda>r. Order_Date r \<noteq> None) df"

text \<open>
  Lines 92--98: the date inputs open on the earliest and the latest order date of the data,
  \<^verbatim>\<open>df["Order Date"].min()\<close> and \<^verbatim>\<open>.max()\<close> (NaT when no row is left), and a date input
  shows and returns the calendar day of a timestamp.
\<close>

definition date_of :: "timestamp \<Rightarrow> date" where
  "date_of t = (case t of (y, m, d, ns) \<Rightarrow> (y, m, d))"

definition startdate :: "row list \<Rightarrow> timestamp option" where
  "startdate df =
     (case List.map_filter Order_Date df of [] \<Rightarrow> None | t # ts \<Rightarrow> Some (fold min ts t))"

definition enddate :: "row list \<Rightarrow> timestamp option" where
  "enddate df =
     (case List.map_filter Order_Date df of [] \<Rightarrow> None | t # ts \<Rightarrow> Some (fold max ts t))"

text \<open>
  One side of the mask \<^verbatim>\<open>(df["Order Date"] >= date1) & (df["Order Date"] <= date2)\<close>: a
  comparison with NaT is false.
\<close>

definition in_range :: "timestamp \<Rightarrow> timestamp \<Rightarrow> timestamp option \<Rightarrow> bool" where
  "in_range date1 date2 od =
     (case od of None \<Rightarrow> False | Some t \<Rightarrow> date1 \<le> t \<and> t \<le> date2)"

definition date_filter :: "row list \<Rightarrow> date \<Rightarrow> date \<Rightarrow> error + row list" where
  "date_filter df0 start end =
     (let df = dropna_Order_Date df0;
          date1 = to_datetime start;
          date2 = to_datetime end
      in if date1 > date2 then Inl InvalidRange
         else Inr (filter (\<lambda>r. in_range date1 date2 (Order_Date r)) df))"

subsection \<open>Sidebar filters (lines 110--141)\<close>

text \<open>
  \<^verbatim>\<open>Series.isin(values)\<close> for a list of strings picked in a multiselect: a missing cell
  is in no such list.
\<close>

definition isin :: "string option \<Rightarrow> string list \<Rightarrow> bool" where
  "isin cell vals = (case cell of None \<Rightarrow> False | Some s \<Rightarrow> s \<in> set vals)"

text \<open>\<^verbatim>\<open>sorted(df[col].dropna().unique())\<close>\<close>

definition options :: "(row \<Rightarrow> string option) \<Rightarrow> row list \<Rightarrow> string list" where
  "options col df = sort (remdups (List.map_filter col df))"

definition df2 :: "row list \<Rightarrow> string list \<Rightarrow> row list" where
  "df2 df region = (if region = [] then df else filter (\<lambda>r. isin (Region r) region) df)"

definition df3 :: "row list \<Rightarrow> string list \<Rightarrow> string list \<Rightarrow> row list" where
  "df3 df region state =
     (if state = [] then df2 df region
      else filter (\<lambda>r. isin (State r) state) (df2 df region))"


text \<open>The \<^verbatim>\<open>if\<close>/\<^verbatim>\<open>elif\<close> chain of lines 122--141, branch by branch, in the source's order.\<close>

definition filtered_df :: "row list \<Rightarrow> string list \<Rightarrow> string list \<Rightarrow> string list \<Rightarrow> row list" where
  "filtered_df df region state city =
     (if region = [] \<and> state = [] \<and> city = [] then df
      else if state = [] \<and> city = [] then filter (\<lambda>r. isin (Region r) region) df
      else if region = [] \<and> city = [] then filter (\<lambda>r. isin (State r) state) df
      else if state \<noteq> [] \<and> city \<noteq> [] then
        filter (\<lambda>r. isin (State r) state \<and> isin (City r) city) (df3 df region state)
      else if region \<noteq> [] \<and> city \<noteq> [] then
        filter (\<lambda>r. isin (Region r) region \<and> isin (City r) city) (df3 df region state)
      else if region \<noteq> [] \<and> state \<noteq> [] then
        filter (\<lambda>r. isin (Region r) region \<and> isin (State r) state) (df3 df region state)
      else if city \<noteq> [] then
        filter (\<lambda>r. isin (City r) city) (df3 df region state)
      else
        filter (\<lambda>r. isin (Region r) region \<and> isin (State r) state \<and> isin (City r) city)
          (df3 df region state))"

text \<open>
  The reference definition of the specification (section 4.1): one conjunctive predicate,
  \<open>(R empty or region in R) and (S empty or state in S) and (C empty or city in C)\<close>.
\<close>

definition spec_predicate :: "string list \<Rightarrow> string list \<Rightarrow> string list \<Rightarrow> row \<Rightarrow> bool" where
  "spec_predicate R S C r \<longleftrightarrow>
     (R = [] \<or> isin (Region r) R) \<and> (S = [] \<or> isin (State r) S) \<and> (C = [] \<or> isin (City r) C)"

definition spec_filter :: "row list \<Rightarrow> string list \<Rightarrow> string list \<Rightarrow> string list \<Rightarrow> row list" where
  "spec_filter D R S C = filter (spec_predicate R S C) D"

subsection \<open>Aggregation views (lines 144, 160, 192--199)\<close>

text \<open>
  Rounding a real to the nearest integer, ties to the even one.
\<close>

definition round_even :: "real \<Rightarrow> int" where
  "round_even y =
     (let f = \<lfloor>y\<rfloor>; d = y - of_int f
      in if d < 1 / 2 then f else if 1 / 2 < d then f + 1 else if even f then f else f + 1)"

text \<open>
  Rounding a real to float64 (IEEE 754 binary64, round to nearest, ties to even): 53
  significant bits, with the unit in the last place never below the smallest subnormal
  number, 2 to the power -1074.
\<close>

definition round64 :: "real \<Rightarrow> real" where
  "round64 x =
     (if x = 0 then 0
      else let e = max (\<lfloor>log 2 \<bar>x\<bar>\<rfloor> - 52) (- 1074)
           in of_int (round_even (x / 2 powr of_int e)) * 2 powr of_int e)"

text \<open>
  float64 addition, and the sum of a float64 column accumulated in row order. pandas and NumPy
  may add a long column in blocks or carry a compensation term; they return the value of this
  plain accumulation whenever no addition rounds, and on the columns of up to three cells
  that are evaluated below.
\<close>

definition fadd :: "real \<Rightarrow> real \<Rightarrow> real" where
  "fadd a b = round64 (a + b)"

definition fsum :: "real list \<Rightarrow> real" where
  "fsum xs = foldl fadd 0 xs"

text \<open>
  \<^verbatim>\<open>df.groupby(key)["Sales"].sum()\<close> with pandas' defaults \<^verbatim>\<open>sort=True\<close> and
  \<^verbatim>\<open>dropna=True\<close>: the groups are the distinct non-missing keys in ascending order, and a
  group's value is the float64 sum of \<^verbatim>\<open>Sales\<close> over the rows with that key.
\<close>

definition groupby_sum :: "(row \<Rightarrow> 'k::linorder option) \<Rightarrow> row list \<Rightarrow> ('k \<times> real) list" where
  "groupby_sum key df =
     map (\<lambda>k. (k, fsum (map Sales (filter (\<lambda>r. key r = Some k) df))))
       (sort (remdups (List.map_filter key df)))"

definition category_df :: "row list \<Rightarrow> (string \<times> real) list" where
  "category_df fd = groupby_sum Category fd"

definition region_sum :: "row list \<Rightarrow> (string \<times> real) list" where
  "region_sum fd = groupby_sum Region fd"

text \<open>\<^verbatim>\<open>.dt.to_period("M")\<close>: the (year, month) of a timestamp.\<close>

definition to_period_M :: "timestamp \<Rightarrow> nat \<times> nat" where
  "to_period_M t = (case t of (y, m, d, ns) \<Rightarrow> (y, m))"

definition month_year :: "row \<Rightarrow> (nat \<times> nat) option" where
  "month_year r = map_option to_period_M (Order_Date r)"

definition digit :: "nat \<Rightarrow> char" where
  "digit n = ''0123456789'' ! (n mod 10)"

definition month_abbr :: "nat \<Rightarrow> string" where
  "month_abbr m =
     (if 1 \<le> m \<and> m \<le> 12 then
        [''Jan'', ''Feb'', ''Mar'', ''Apr'', ''May'', ''Jun'',
         ''Jul'', ''Aug'', ''Sep'', ''Oct'', ''Nov'', ''Dec''] ! (m - 1)
      else [])"

text \<open>
  \<^verbatim>\<open>.dt.strftime("%Y-%b")\<close> of a monthly period. A pandas timestamp has a year between
  1677 and 2262, which \<^verbatim>\<open>%Y\<close> prints with four digits.
\<close>

definition strftime_Y_b :: "nat \<times> nat \<Rightarrow> string" where
  "strftime_Y_b p =
     (case p of (y, m) \<Rightarrow>
        [digit (y div 1000), digit (y div 100), digit (y div 10), digit y] @ ''-'' @ month_abbr m)"

text \<open>
  The group key of the time series is the formatted string, so \<^verbatim>\<open>groupby\<close> sorts the
  groups by that string.
\<close>

definition linechart :: "row list \<Rightarrow> (string \<times> real) list" where
  "linechart fd = groupby_sum (\<lambda>r. map_option strftime_Y_b (month_year r)) fd"

subsection \<open>The script as a whole\<close>

record views =
  category_view :: "(string \<times> real) list"
  region_view :: "(string \<times> real) list"
  time_series_view :: "(string \<times> real) list"

text \<open>
  One run of the script: \<^verbatim>\<open>st.stop()\<close> after a failed validation or an inverted date
  range ends the run, and nothing after it is computed.
\<close>

definition dashboard ::
  "string list \<Rightarrow> row list \<Rightarrow> date \<Rightarrow> date \<Rightarrow> string list \<Rightarrow> string list \<Rightarrow> string list
     \<Rightarrow> error + views" where
  "dashboard columns df0 start end region state city =
     (case validate columns of
        Inl e \<Rightarrow> Inl e
      | Inr _ \<Rightarrow>
          (case date_filter df0 start end of
             Inl e \<Rightarrow> Inl e
           | Inr df \<Rightarrow>
               (let fd = filtered_df df region state city
                in Inr \<lparr>category_view = category_df fd, region_view = region_sum fd,
                        time_series_view = linechart fd\<rparr>)))"

subsection \<open>Example data\<close>

text \<open>
  The three rows of the specification's concrete scenario, a row whose categorical cells are
  all missing, and a row whose order date failed to parse.
\<close>

definition row1 :: row where
  "row1 = \<lparr>Order_Date = Some (2024, 1, 15, 0), Region = Some ''East'', State = Some ''NY'',
            City = Some ''NYC'', Category = Some ''Furniture'', Sales = 100\<rparr>"

definition row2 :: row where
  "row2 = \<lparr>Order_Date = Some (2024, 2, 10, 0), Region = Some ''West'', State = Some ''CA'',
            City = Some ''LA'', Category = Some ''Tech'', Sales = 200\<rparr>"

definition row3 :: row where
  "row3 = \<lparr>Order_Date = Some (2024, 1, 20, 0), Region = Some ''East'', State = Some ''NY'',
            City = Some ''NYC'', Category = Some ''Tech'', Sales = 50\<rparr>"

definition row_null :: row where
  "row_null = \<lparr>Order_Date = Some (2024, 1, 25, 0), Region = None, State = None,
                City = None, Category = None, Sales = 5\<rparr>"

definition row_nat :: row where
  "row_nat = \<lparr>Order_Date = None, Region = Some ''East'', State = Some ''NY'',
               City = Some ''NYC'', Category = Some ''Tech'', Sales = 7\<rparr>"

text \<open>The second row of the scenario with another order date.\<close>

definition on_date :: "timestamp option \<Rightarrow> row" where
  "on_date od = row2\<lparr>Order_Date := od\<rparr>"


text \<open>The second row of the scenario, ordered at 10:30 on its day.\<close>

definition row_late :: row where
  "row_late = row2\<lparr>Order_Date := Some (2024, 2, 10, 37800000000000)\<rparr>"

lemmas row_defs = row1_def row2_def row3_def row_null_def row_nat_def

section \<open>Auxiliary facts\<close>

lemma isin_iff: "isin cell vals \<longleftrightarrow> cell \<in> Some ` set vals"
  by (cases cell) (auto simp: isin_def)

lemma df2_conv: "df2 df R = filter (\<lambda>r. R = [] \<or> isin (Region r) R) df"
  by (simp add: df2_def)

lemma df3_conv:
  "df3 df R S = filter (\<lambda>r. (R = [] \<or> isin (Region r) R) \<and> (S = [] \<or> isin (State r) S)) df"
  by (simp add: df3_def df2_conv)

lemma filtered_df_conv: "filtered_df df R S C = filter (spec_predicate R S C) df"
proof -
  have "filtered_df df R S C =
      filter (\<lambda>r. (R = [] \<or> isin (Region r) R) \<and> (S = [] \<or> isin (State r) S)
                 \<and> (C = [] \<or> isin (City r) C)) df"
    by (cases "R = []"; cases "S = []"; cases "C = []")
       (auto simp: filtered_df_def df3_conv intro: filter_cong)
  then show ?thesis
    by (simp add: spec_predicate_def [abs_def])
qed



lemma set_map_filter: "set (List.map_filter key df) = {k. \<exists>r\<in>set df. key r = Some k}"
  by (induction df) (auto split: option.splits)

lemma groupby_sum_keys:
  "map fst (groupby_sum key df) = sort (remdups (List.map_filter key df))"
  by (simp add: groupby_sum_def comp_def)

lemma round_even_of_int: "round_even (of_int n) = n"
  by (simp add: round_even_def)

lemma log2_power: "log 2 (2 ^ n) = real n"
  by (simp add: log_nat_power)

lemma floor_log2_less:
  assumes "0 < x" "x < 2 ^ n"
  shows "\<lfloor>log 2 x\<rfloor> < int n"
proof -
  have "log 2 x < log 2 (2 ^ n)"
    using assms by (subst log_less_cancel_iff) simp_all
  then have "log 2 x < real n"
    by (simp only: log2_power)
  then show ?thesis by linarith
qed


lemma powr_neg_nat: "2 powr - real k = 1 / 2 ^ k"
  by (simp add: powr_minus powr_realpow divide_inverse)

lemma round64_exact:
  assumes "x \<in> \<int>" "\<bar>x\<bar> < 2 ^ 53"
  shows "round64 x = x"
proof (cases "x = 0")
  case True
  then show ?thesis by (simp add: round64_def)
next
  case False
  define e where "e = max (\<lfloor>log 2 \<bar>x\<bar>\<rfloor> - 52) (- 1074)"
  from False assms have "\<lfloor>log 2 \<bar>x\<bar>\<rfloor> < int 53"
    using floor_log2_less [of "\<bar>x\<bar>" 53] by simp
  then have "e \<le> 0" by (simp add: e_def)
  then obtain k where k: "e = - int k"
    by (metis neg_le_0_iff_le minus_minus nonneg_int_cases)
  from assms(1) obtain n where n: "x = of_int n" by (auto elim: Ints_cases)
  have "x / 2 powr of_int e = of_int (n * 2 ^ k)"
    by (simp add: k n powr_neg_nat)
  then have "round_even (x / 2 powr of_int e) = n * 2 ^ k"
    by (simp only: round_even_of_int)
  then have "of_int (round_even (x / 2 powr of_int e)) * 2 powr of_int e = x"
    by (simp add: k n powr_neg_nat)
  with False show ?thesis
    by (simp add: round64_def e_def [symmetric] Let_def)
qed








lemma groupby_sum_dropna:
  "groupby_sum key (filter (\<lambda>r. key r \<noteq> None) df) = groupby_sum key df"
proof -
  have 1: "List.map_filter key (filter (\<lambda>r. key r \<noteq> None) df) = List.map_filter key df"
    by (induction df) (auto split: option.splits)
  have 2: "filter (\<lambda>r. key r = Some k) (filter (\<lambda>r. key r \<noteq> None) df) =
           filter (\<lambda>r. key r = Some k) df" for k
    by (induction df) auto
  show ?thesis by (simp only: groupby_sum_def 1 2)
qed

lemma groupby_sum_member:
  "(k, v) \<in> set (groupby_sum key df) \<longleftrightarrow>
   (\<exists>r\<in>set df. key r = Some k) \<and> v = fsum (map Sales (filter (\<lambda>r. key r = Some k) df))"
  by (auto simp: groupby_sum_def set_map_filter)

lemma to_datetime_less: "to_datetime a < to_datetime b \<longleftrightarrow> a < b"
  by (cases a; cases b) (auto simp: to_datetime_def)

lemma to_datetime_le: "to_datetime a \<le> to_datetime b \<longleftrightarrow> a \<le> b"
  by (cases a; cases b) (auto simp: to_datetime_def)

lemma date_filter_Inr:
  "start \<le> end \<Longrightarrow>
   date_filter df0 start end =
     Inr (filter (\<lambda>r. in_range (to_datetime start) (to_datetime end) (Order_Date r)) df0)"
proof -
  assume "start \<le> end"
  then have "\<not> to_datetime end < to_datetime start"
    by (simp add: to_datetime_less not_less)
  moreover have "filter (\<lambda>r. in_range a b (Order_Date r)) (dropna_Order_Date df0) =
      filter (\<lambda>r. in_range a b (Order_Date r)) df0" for a b
    by (induction df0) (auto simp: dropna_Order_Date_def in_range_def split: option.splits)
  ultimately show ?thesis
    by (simp add: date_filter_def Let_def)
qed

lemma date_filter_Inl: "end < start \<Longrightarrow> date_filter df0 start end = Inl InvalidRange"
  by (simp add: date_filter_def Let_def to_datetime_less)

lemma set_missing: "set (missing columns) = set required_cols - set columns"
  by (auto simp: missing_def)

lemma distinct_missing: "distinct (missing columns)"
  by (simp add: missing_def required_cols_def)



lemma sorted_options: "sorted (options col df)"
  by (simp add: options_def)





lemma sorted_groupby_sum: "sorted (map fst (groupby_sum key df))"
  by (simp add: groupby_sum_keys)

text \<open>The groups of the time series come in the order of their labels.\<close>

lemma linechart_sorted_by_label: "sorted (map fst (linechart fd)) \<and> distinct (map fst (linechart fd))"
  by (simp add: linechart_def groupby_sum_keys)










section \<open>The hierarchical filter\<close>

text \<open>
  Claim C1. For every dataset and every Region, State and City selection, the eight-branch
  filter of the script returns the rows selected by the single conjunctive predicate of the
  specification, in the same order; in particular the two results have the same rows.
\<close>

theorem filter_equivalence:
  "filtered_df D R S C = spec_filter D R S C \<and>
   set (filtered_df D R S C) =
     {r \<in> set D. (R = [] \<or> isin (Region r) R) \<and> (S = [] \<or> isin (State r) S)
                 \<and> (C = [] \<or> isin (City r) C)}"
  by (auto simp: filtered_df_conv spec_filter_def spec_predicate_def)

theorem filter_equivalence_witness:
  "filtered_df [row1, row2, row3, row_null] [''East''] [''NY''] [] =
     spec_filter [row1, row2, row3, row_null] [''East''] [''NY''] [] \<and>
   spec_filter [row1, row2, row3, row_null] [''East''] [''NY''] [] = [row1, row3]"
  using filter_equivalence [of "[row1, row2, row3, row_null]" "[''East'']" "[''NY'']" "[]"]
  by (simp add: spec_filter_def spec_predicate_def isin_def row_defs)

text \<open>
  Claim C7. Filtering the result of the filter again, with the same three selections, changes
  nothing.
\<close>

theorem filter_idempotent:
  "filtered_df (filtered_df D R S C) R S C = filtered_df D R S C"
  by (simp add: filtered_df_conv)

theorem filter_idempotent_witness:
  "filtered_df (filtered_df [row1, row2, row3] [] [''CA'', ''NY''] [''NYC'']) [] [''CA'', ''NY''] [''NYC'']
     = filtered_df [row1, row2, row3] [] [''CA'', ''NY''] [''NYC''] \<and>
   filtered_df [row1, row2, row3] [] [''CA'', ''NY''] [''NYC''] = [row1, row3]"
  using filter_idempotent [of "[row1, row2, row3]" "[]" "[''CA'', ''NY'']" "[''NYC'']"]
  by (simp add: filtered_df_def df3_def df2_def isin_def row_defs)

text \<open>
  Claim C8. With all three selections empty the filter returns the dataset itself, rows and
  order unchanged.
\<close>

theorem filter_identity: "filtered_df D [] [] [] = D"
  by (simp add: filtered_df_def)

theorem filter_identity_witness:
  "filtered_df [row2, row_null, row1, row1] [] [] [] = [row2, row_null, row1, row1]"
  using filter_identity [of "[row2, row_null, row1, row1]"] .

text \<open>
  Claim C9. When the Region selection is not empty, every row of the result has a region
  that is one of the selected values, whatever the State and City selections are; a row whose
  region is not selected, and in particular a row with a missing region, is not in the result.
\<close>

theorem region_selection_sound:
  assumes "R \<noteq> []"
  shows "(\<forall>r\<in>set (filtered_df D R S C). Region r \<in> Some ` set R) \<and>
         (\<forall>r. Region r \<notin> Some ` set R \<longrightarrow> r \<notin> set (filtered_df D R S C)) \<and>
         (\<forall>r. Region r = None \<longrightarrow> r \<notin> set (filtered_df D R S C))"
  using assms by (auto simp: filtered_df_conv spec_predicate_def isin_iff)

theorem region_selection_sound_witness:
  "[''East''] \<noteq> [] \<and>
   filtered_df [row1, row2, row3, row_null] [''East''] [] [] = [row1, row3] \<and>
   Region row1 \<in> Some ` set [''East''] \<and>
   Region row3 \<in> Some ` set [''East''] \<and>
   row2 \<notin> set (filtered_df [row1, row2, row3, row_null] [''East''] [] []) \<and>
   row_null \<notin> set (filtered_df [row1, row2, row3, row_null] [''East''] [] [])"
proof -
  have ne: "[''East''] \<noteq> []" by simp
  note t = region_selection_sound [OF ne, of "[row1, row2, row3, row_null]" "[]" "[]"]
  have f: "filtered_df [row1, row2, row3, row_null] [''East''] [] [] = [row1, row3]"
    by (simp add: filtered_df_def isin_def row_defs)
  have "Region row2 \<notin> Some ` set [''East'']" "Region row_null = None"
    by (simp_all add: row_defs)
  with t have "row2 \<notin> set (filtered_df [row1, row2, row3, row_null] [''East''] [] [])"
    "row_null \<notin> set (filtered_df [row1, row2, row3, row_null] [''East''] [] [])"
    by blast+
  moreover from t f have "Region row1 \<in> Some ` set [''East'']" "Region row3 \<in> Some ` set [''East'']"
    by simp_all
  ultimately show ?thesis using f by simp
qed

section \<open>The date filter\<close>

text \<open>
  What the date filter does, in terms of timestamps. For a range with start not after end it
  returns a dataset that contains every row dated at midnight of the start day or at midnight
  of the end day, no row dated before midnight of the start day or after midnight of the end
  day, and no row with a missing order date: such rows are removed before the comparison.
  When start is after end the filter returns no dataset but the error \<open>InvalidRange\<close>, and
  the run of the script ends with that error.
\<close>

theorem date_filter_contract:
  "(start \<le> end \<longrightarrow>
      (\<exists>out. date_filter df0 start end = Inr out \<and>
         (\<forall>r\<in>set df0. Order_Date r = Some (to_datetime start) \<or>
                       Order_Date r = Some (to_datetime end) \<longrightarrow> r \<in> set out) \<and>
         (\<forall>r t. Order_Date r = Some t \<and> (t < to_datetime start \<or> to_datetime end < t)
                  \<longrightarrow> r \<notin> set out) \<and>
         (\<forall>r. Order_Date r = None \<longrightarrow> r \<notin> set (dropna_Order_Date df0) \<and> r \<notin> set out) \<and>
         set out \<subseteq> set (dropna_Order_Date df0))) \<and>
   (end < start \<longrightarrow>
      date_filter df0 start end = Inl InvalidRange \<and>
      (validate columns = Inr () \<longrightarrow>
         dashboard columns df0 start end R S C = Inl InvalidRange))"
proof (intro conjI impI)
  assume le: "start \<le> end"
  let ?out = "filter (\<lambda>r. in_range (to_datetime start) (to_datetime end) (Order_Date r)) df0"
  have "date_filter df0 start end = Inr ?out"
    using le by (rule date_filter_Inr)
  moreover have "\<forall>r\<in>set df0. Order_Date r = Some (to_datetime start) \<or>
                       Order_Date r = Some (to_datetime end) \<longrightarrow> r \<in> set ?out"
    using le by (auto simp: in_range_def to_datetime_le)
  moreover have "\<forall>r t. Order_Date r = Some t \<and> (t < to_datetime start \<or> to_datetime end < t)
                  \<longrightarrow> r \<notin> set ?out"
    by (auto simp: in_range_def)
  moreover have "\<forall>r. Order_Date r = None \<longrightarrow> r \<notin> set (dropna_Order_Date df0) \<and> r \<notin> set ?out"
    by (auto simp: in_range_def dropna_Order_Date_def)
  moreover have "set ?out \<subseteq> set (dropna_Order_Date df0)"
    by (auto simp: in_range_def dropna_Order_Date_def split: option.splits)
  ultimately show "\<exists>out. date_filter df0 start end = Inr out \<and>
         (\<forall>r\<in>set df0. Order_Date r = Some (to_datetime start) \<or>
                       Order_Date r = Some (to_datetime end) \<longrightarrow> r \<in> set out) \<and>
         (\<forall>r t. Order_Date r = Some t \<and> (t < to_datetime start \<or> to_datetime end < t)
                  \<longrightarrow> r \<notin> set out) \<and>
         (\<forall>r. Order_Date r = None \<longrightarrow> r \<notin> set (dropna_Order_Date df0) \<and> r \<notin> set out) \<and>
         set out \<subseteq> set (dropna_Order_Date df0)"
    by blast
next
  assume "end < start"
  then show "date_filter df0 start end = Inl InvalidRange"
    by (rule date_filter_Inl)
next
  assume "end < start" "validate columns = Inr ()"
  then show "dashboard columns df0 start end R S C = Inl InvalidRange"
    by (simp add: dashboard_def date_filter_Inl)
qed

text \<open>
  The comparison is between timestamps: the last row below is dated on the end day, one
  nanosecond after midnight, which is after \<open>end\<close>.
\<close>

theorem date_filter_contract_witness:
  "((2024, 2, 1) :: date) \<le> (2024, 2, 28) \<and>
   date_filter
     [on_date (Some (2024, 1, 31, 0)), on_date (Some (2024, 2, 1, 0)), on_date None,
      on_date (Some (2024, 2, 28, 0)), on_date (Some (2024, 2, 29, 0)),
      on_date (Some (2024, 2, 28, 1))]
     (2024, 2, 1) (2024, 2, 28)
     = Inr [on_date (Some (2024, 2, 1, 0)), on_date (Some (2024, 2, 28, 0))] \<and>
   ((2024, 2, 28) :: date) < (2024, 3, 1) \<and>
   date_filter [row1, row2, row3] (2024, 3, 1) (2024, 2, 28) = Inl InvalidRange \<and>
   validate required_cols = Inr () \<and>
   dashboard required_cols [row1, row2, row3] (2024, 3, 1) (2024, 2, 28) [] [] [] = Inl InvalidRange"
  using date_filter_contract [of "(2024, 2, 1)" "(2024, 2, 28)"
      "[on_date (Some (2024, 1, 31, 0)), on_date (Some (2024, 2, 1, 0)), on_date None,
        on_date (Some (2024, 2, 28, 0)), on_date (Some (2024, 2, 29, 0)),
        on_date (Some (2024, 2, 28, 1))]"]
    date_filter_contract [of "(2024, 3, 1)" "(2024, 2, 28)" "[row1, row2, row3]" required_cols
      "[]" "[]" "[]"]
  by (simp add: date_filter_def dropna_Order_Date_def in_range_def to_datetime_def on_date_def
      validate_def missing_def required_cols_def row_defs)

text \<open>
  Claim C4. A row whose order date is the end day is in the result only when its time of day
  is midnight: the bound is midnight of the end day, so a row ordered later on that day is
  dropped. With the range the date inputs open on, the earliest to the latest order date of
  the data, the latest row of the dataset below is dropped and is in no view.
\<close>

theorem date_filter_drops_end_day:
  "Order_Date row_late = Some (2024, 2, 10, 37800000000000) \<and>
   date_of (2024, 2, 10, 37800000000000) = (2024, 2, 10) \<and>
   date_filter [row1, row_late] (2024, 1, 15) (2024, 2, 10) = Inr [row1] \<and>
   startdate (dropna_Order_Date [row1, row_late]) = Some (2024, 1, 15, 0) \<and>
   enddate (dropna_Order_Date [row1, row_late]) = Some (2024, 2, 10, 37800000000000) \<and>
   dashboard required_cols [row1, row_late] (2024, 1, 15) (2024, 2, 10) [] [] [] =
     Inr \<lparr>category_view = [(''Furniture'', 100)], region_view = [(''East'', 100)],
          time_series_view = [(''2024-Jan'', 100)]\<rparr>"
  by (simp add: date_filter_def dropna_Order_Date_def in_range_def to_datetime_def date_of_def
      startdate_def enddate_def dashboard_def validate_def missing_def required_cols_def
      filtered_df_def category_df_def region_sum_def linechart_def groupby_sum_def fsum_def
      fadd_def round64_exact month_year_def to_period_M_def strftime_Y_b_def digit_def
      month_abbr_def row_late_def row_defs)

section \<open>Schema validation\<close>

text \<open>
  Claim C5. When the loaded table lacks at least one of the six required columns, validation
  fails with \<open>MissingColumns\<close>, the reported names are exactly the required columns that
  are absent, and the run of the script ends with that error. When \<^verbatim>\<open>Sales\<close> is the only
  required column that is absent the error names exactly \<^verbatim>\<open>["Sales"]\<close>.
\<close>

theorem missing_columns_reported:
  "(\<not> set required_cols \<subseteq> set columns \<longrightarrow>
      (\<exists>ms. validate columns = Inl (MissingColumns ms) \<and>
            set ms = set required_cols - set columns \<and> distinct ms \<and>
            dashboard columns df0 start end R S C = Inl (MissingColumns ms))) \<and>
   (''Sales'' \<notin> set columns \<and> set required_cols - {''Sales''} \<subseteq> set columns \<longrightarrow>
      validate columns = Inl (MissingColumns [''Sales'']) \<and>
      dashboard columns df0 start end R S C = Inl (MissingColumns [''Sales'']))"
proof (intro conjI impI)
  assume "\<not> set required_cols \<subseteq> set columns"
  then have ne: "missing columns \<noteq> []"
    using set_missing [of columns] by auto
  let ?ms = "sort (missing columns)"
  have "validate columns = Inl (MissingColumns ?ms)"
    using ne by (simp add: validate_def)
  moreover from this have "dashboard columns df0 start end R S C = Inl (MissingColumns ?ms)"
    by (simp add: dashboard_def)
  moreover have "set ?ms = set required_cols - set columns" "distinct ?ms"
    by (simp_all add: set_missing distinct_missing)
  ultimately show "\<exists>ms. validate columns = Inl (MissingColumns ms) \<and>
            set ms = set required_cols - set columns \<and> distinct ms \<and>
            dashboard columns df0 start end R S C = Inl (MissingColumns ms)"
    by blast
next
  assume a: "''Sales'' \<notin> set columns \<and> set required_cols - {''Sales''} \<subseteq> set columns"
  then have "missing columns = [''Sales'']"
    by (auto simp: missing_def required_cols_def)
  then show v: "validate columns = Inl (MissingColumns [''Sales''])"
    by (simp add: validate_def)
  then show "dashboard columns df0 start end R S C = Inl (MissingColumns [''Sales''])"
    by (simp add: dashboard_def)
qed

theorem missing_columns_reported_witness:
  "\<not> set required_cols \<subseteq> set [''Row ID'', ''Region'', ''Sales'', ''Profit''] \<and>
   validate [''Row ID'', ''Region'', ''Sales'', ''Profit''] =
     Inl (MissingColumns [''Category'', ''City'', ''Order Date'', ''State'']) \<and>
   ''Sales'' \<notin> set [''Order Date'', ''Region'', ''State'', ''City'', ''Category''] \<and>
   set required_cols - {''Sales''} \<subseteq> set [''Order Date'', ''Region'', ''State'', ''City'', ''Category''] \<and>
   validate [''Order Date'', ''Region'', ''State'', ''City'', ''Category''] =
     Inl (MissingColumns [''Sales'']) \<and>
   dashboard [''Order Date'', ''Region'', ''State'', ''City'', ''Category''] [row1, row2, row3]
     (2024, 1, 1) (2024, 12, 31) [] [] [] = Inl (MissingColumns [''Sales''])"
proof -
  have h1: "\<not> set required_cols \<subseteq> set [''Row ID'', ''Region'', ''Sales'', ''Profit'']"
    by (simp add: required_cols_def)
  have h2: "''Sales'' \<notin> set [''Order Date'', ''Region'', ''State'', ''City'', ''Category''] \<and>
    set required_cols - {''Sales''} \<subseteq> set [''Order Date'', ''Region'', ''State'', ''City'', ''Category'']"
    by (auto simp: required_cols_def)
  have v: "validate [''Row ID'', ''Region'', ''Sales'', ''Profit''] =
     Inl (MissingColumns [''Category'', ''City'', ''Order Date'', ''State''])"
    by (simp add: validate_def missing_def required_cols_def)
  from h1 h2 v
    missing_columns_reported [of "[''Order Date'', ''Region'', ''State'', ''City'', ''Category'']"
      "[row1, row2, row3]" "(2024, 1, 1)" "(2024, 12, 31)" "[]" "[]" "[]"]
  show ?thesis by blast
qed

section \<open>Candidate lists of the sidebar\<close>



section \<open>The aggregation views\<close>

text \<open>
  Claim C10. Rows with a missing grouping key are left out of the view: the Category view of
  a dataset is the Category view of its rows with a category, so deleting a row without a
  category changes nothing; the keys of the view are exactly the categories that occur, and
  each group's sum is taken over the rows with that category only. The same holds for the
  Region view and rows without a region.
\<close>

theorem null_keys_omitted:
  "category_df fd = category_df (filter (\<lambda>r. Category r \<noteq> None) fd) \<and>
   region_sum fd = region_sum (filter (\<lambda>r. Region r \<noteq> None) fd) \<and>
   (Category r = None \<longrightarrow> category_df (xs @ r # ys) = category_df (xs @ ys)) \<and>
   (Region r = None \<longrightarrow> region_sum (xs @ r # ys) = region_sum (xs @ ys)) \<and>
   set (map fst (category_df fd)) = {k. \<exists>r\<in>set fd. Category r = Some k} \<and>
   set (map fst (region_sum fd)) = {k. \<exists>r\<in>set fd. Region r = Some k} \<and>
   (\<forall>k v. (k, v) \<in> set (category_df fd) \<longrightarrow>
      v = fsum (map Sales (filter (\<lambda>r. Category r = Some k) fd))) \<and>
   (\<forall>k v. (k, v) \<in> set (region_sum fd) \<longrightarrow>
      v = fsum (map Sales (filter (\<lambda>r. Region r = Some k) fd)))"
proof -
  have drop: "key r = None \<Longrightarrow> groupby_sum key (xs @ r # ys) = groupby_sum key (xs @ ys)"
    for key :: "row \<Rightarrow> string option"
  proof -
    assume n: "key r = None"
    have "groupby_sum key (xs @ r # ys) =
          groupby_sum key (filter (\<lambda>r. key r \<noteq> None) (xs @ r # ys))"
      by (simp only: groupby_sum_dropna)
    also have "filter (\<lambda>r. key r \<noteq> None) (xs @ r # ys) = filter (\<lambda>r. key r \<noteq> None) (xs @ ys)"
      using n by simp
    finally show ?thesis by (simp only: groupby_sum_dropna)
  qed
  have keys: "set (map fst (groupby_sum key fd)) = {k. \<exists>r\<in>set fd. key r = Some k}"
    for key :: "row \<Rightarrow> string option"
    by (simp add: groupby_sum_keys set_map_filter)
  show ?thesis
    unfolding category_df_def region_sum_def
    by (intro conjI impI allI) (simp_all only: groupby_sum_dropna drop keys groupby_sum_member)
qed

theorem null_keys_omitted_witness:
  "Category row_null = None \<and> Region row_null = None \<and>
   category_df [row1, row_null, row3] = [(''Furniture'', 100), (''Tech'', 50)] \<and>
   category_df [row1, row3] = [(''Furniture'', 100), (''Tech'', 50)] \<and>
   region_sum [row1, row_null, row3] = [(''East'', 150)] \<and>
   region_sum [row1, row3] = [(''East'', 150)]"
  using null_keys_omitted [of "[row1, row_null, row3]" row_null "[row1]" "[row3]"]
  by (simp add: category_df_def region_sum_def groupby_sum_def fsum_def fadd_def round64_exact
      row_defs)




text \<open>
  Claim C2. The time series has one group per month and sums the sales of each, but the
  groups come in the order of the labels \<^verbatim>\<open>%Y-%b\<close>: on the scenario's dataset, with the
  whole year as date range and no selection, the script yields February 2024 before
  January 2024.
\<close>

theorem time_series_not_chronological:
  "dashboard required_cols [row1, row2, row3] (2024, 1, 1) (2024, 12, 31) [] [] [] =
     Inr \<lparr>category_view = [(''Furniture'', 100), (''Tech'', 250)],
          region_view = [(''East'', 150), (''West'', 200)],
          time_series_view = [(''2024-Feb'', 200), (''2024-Jan'', 150)]\<rparr> \<and>
   month_year row2 = Some (2024, 2) \<and> strftime_Y_b (2024, 2) = ''2024-Feb'' \<and>
   month_year row1 = Some (2024, 1) \<and> strftime_Y_b (2024, 1) = ''2024-Jan'' \<and>
   ((2024, 1) :: nat \<times> nat) < (2024, 2)"
  by (simp add: dashboard_def validate_def missing_def required_cols_def date_filter_def
      dropna_Order_Date_def in_range_def to_datetime_def filtered_df_def category_df_def
      region_sum_def linechart_def groupby_sum_def fsum_def fadd_def round64_exact
      month_year_def to_period_M_def strftime_Y_b_def digit_def month_abbr_def row_defs)

end
